theory Spec2Isabelle
  imports Main "HOL-Library.Product_Lexorder"
begin

section \<open>Colours and points (go.h, lines 12--96)\<close>

datatype color = BLACK | WHITE

text \<open>\<^verbatim>\<open>Color operator~(const Color& c)\<close>: the other colour.\<close>

fun color_not :: "color \<Rightarrow> color" where
  "color_not BLACK = WHITE"
| "color_not WHITE = BLACK"

text \<open>
  \<^verbatim>\<open>struct Pos { int row, col; }\<close>. Its ordering compares \<^verbatim>\<open>std::pair{row, col}\<close>, so a
  point is modelled as that pair, ordered lexicographically. Every coordinate the modelled
  functions compute is at most one step away from a coordinate that passed
  \<^verbatim>\<open>is_pos_valid\<close> or is tested by it before use, so \<^verbatim>\<open>int\<close> never wraps and \<open>int\<close> is exact.
\<close>

type_synonym pos = "int \<times> int"

abbreviation row :: "pos \<Rightarrow> int" where "row \<equiv> fst"
abbreviation col :: "pos \<Rightarrow> int" where "col \<equiv> snd"

definition neighbors :: "pos \<Rightarrow> pos list" where
  "neighbors p = [(row p, col p - 1), (row p, col p + 1), (row p - 1, col p), (row p + 1, col p)]"

definition corners :: "pos \<Rightarrow> pos list" where
  "corners p = [(row p - 1, col p - 1), (row p - 1, col p + 1),
                (row p + 1, col p - 1), (row p + 1, col p + 1)]"

section \<open>Ordered sets (\<^verbatim>\<open>std::set\<close>) and \<^verbatim>\<open>Positions\<close> (lines 98--149)\<close>

text \<open>
  A \<^verbatim>\<open>std::set\<close> is a strictly increasing list; iteration runs through it from the least
  element. \<open>set_insert\<close> is \<^verbatim>\<open>std::set::insert\<close>, \<open>set_erase\<close> is \<^verbatim>\<open>std::set::erase\<close>.
\<close>

fun set_insert :: "'a::linorder \<Rightarrow> 'a list \<Rightarrow> 'a list" where
  "set_insert x [] = [x]"
| "set_insert x (y # ys) =
     (if x = y then y # ys else if x < y then x # y # ys else y # set_insert x ys)"

fun set_erase :: "'a \<Rightarrow> 'a list \<Rightarrow> 'a list" where
  "set_erase x [] = []"
| "set_erase x (y # ys) = (if x = y then set_erase x ys else y # set_erase x ys)"

type_synonym positions = "pos list"

text \<open>\<^verbatim>\<open>Positions::operator+=(const Positions&)\<close>: insert every element of the other set.\<close>

fun positions_add :: "positions \<Rightarrow> positions \<Rightarrow> positions" where
  "positions_add ps [] = ps"
| "positions_add ps (q # qs) = positions_add (set_insert q ps) qs"

text \<open>\<^verbatim>\<open>Positions::operator-=(v stones)\<close>: erase every element of the range.\<close>

fun positions_sub :: "positions \<Rightarrow> positions \<Rightarrow> positions" where
  "positions_sub ps [] = ps"
| "positions_sub ps (q # qs) = positions_sub (set_erase q ps) qs"

section \<open>Groups (lines 151--182)\<close>

datatype error = Invalid_argument | Null_deref | Out_of_bounds | Empty_set | Dangling_pointer

record group =
  color :: color
  stones :: positions
  liberties :: positions

definition numLiberties :: "group \<Rightarrow> nat" where
  "numLiberties g = length (liberties g)"

definition isDead :: "group \<Rightarrow> bool" where
  "isDead g = (numLiberties g = 0)"

text \<open>
  \<^verbatim>\<open>void _Group::operator+=(const _Group &other)\<close>. When the colours agree the receiver
  absorbs the other group; then control falls out of the \<^verbatim>\<open>if\<close> into the \<^verbatim>\<open>throw\<close>, so
  the statement ends in \<^verbatim>\<open>std::invalid_argument\<close> on every path. The result is the
  receiver as the statement leaves it together with the exception it raises.
\<close>

definition group_add_assign :: "group \<Rightarrow> group \<Rightarrow> group \<times> error option" where
  "group_add_assign g other =
     (let g1 = (if color g = color other then
                  (let st = positions_add (stones g) (stones other);
                       li = positions_add (liberties g) (liberties other)
                   in g\<lparr>stones := st, liberties := positions_sub li st\<rparr>)
                else g)
      in (g1, Some Invalid_argument))"

section \<open>The board and the store of groups (lines 184--267)\<close>

text \<open>
  \<^verbatim>\<open>typedef std::shared_ptr<_Group> Group\<close>: a group reference is an address in a store
  of groups; the null pointer is \<open>None\<close>. Several boards (a board and its copies) live
  over one store. An address is a position in the list \<open>heap\<close>; \<^verbatim>\<open>make_shared\<close> and
  \<^verbatim>\<open>new\<close> take the next unused one. A group no pointer refers to any more stays in
  the list unobserved. \<open>Dangling_pointer\<close> is what the model answers for an address
  outside the store, which shared ownership excludes in the program.
\<close>

type_synonym addr = nat
type_synonym heap = "group list"

definition deref :: "heap \<Rightarrow> addr \<Rightarrow> error + group" where
  "deref h a = (if a < length h then Inr (h ! a) else Inl Dangling_pointer)"

definition board_size :: int where
  "board_size = 9"

record board =
  grid :: "addr option list list"
  activeGroups :: "addr list"

definition is_pos_valid :: "pos \<Rightarrow> bool" where
  "is_pos_valid p = (row p \<ge> 0 \<and> row p < board_size \<and> col p \<ge> 0 \<and> col p < board_size)"

text \<open>\<^verbatim>\<open>grid[p.row][p.col]\<close> where the source has just checked \<^verbatim>\<open>is_pos_valid(p)\<close>.\<close>

definition grid_at :: "board \<Rightarrow> pos \<Rightarrow> addr option" where
  "grid_at b p = grid b ! nat (row p) ! nat (col p)"

definition grid_set :: "pos \<Rightarrow> addr option \<Rightarrow> board \<Rightarrow> board" where
  "grid_set p v b =
     b\<lparr>grid := (grid b)[nat (row p) := (grid b ! nat (row p))[nat (col p) := v]]\<rparr>"

text \<open>
  \<^verbatim>\<open>getGroupPtr(p)\<close> and \<^verbatim>\<open>operator[](p)\<close> index the two \<^verbatim>\<open>std::array\<close>s with no check:
  outside the grid the behaviour is undefined, which the model reports as
  \<open>Out_of_bounds\<close>.
\<close>

definition getGroupPtr :: "board \<Rightarrow> pos \<Rightarrow> error + addr option" where
  "getGroupPtr b p = (if is_pos_valid p then Inr (grid_at b p) else Inl Out_of_bounds)"

definition setGroupPtr :: "pos \<Rightarrow> addr option \<Rightarrow> board \<Rightarrow> error + board" where
  "setGroupPtr p v b = (if is_pos_valid p then Inr (grid_set p v b) else Inl Out_of_bounds)"

text \<open>\<^verbatim>\<open>Board() = default\<close>: every cell null, no active group.\<close>

definition empty_grid :: "addr option list list" where
  "empty_grid = replicate (nat board_size) (replicate (nat board_size) None)"

definition empty_board :: board where
  "empty_board = \<lparr>grid = empty_grid, activeGroups = []\<rparr>"

subsection \<open>\<^verbatim>\<open>Board::place_stone\<close> (lines 196--232)\<close>

text \<open>
  The loop over \<^verbatim>\<open>pos.neighbors()\<close> (lines 203--208), with the three accumulators
  \<^verbatim>\<open>adj_friends\<close>, \<^verbatim>\<open>adj_enemies\<close> and \<^verbatim>\<open>newLiberties\<close>.
\<close>

fun classify :: "board \<Rightarrow> heap \<Rightarrow> color \<Rightarrow> pos list \<Rightarrow> addr list \<times> addr list \<times> positions
    \<Rightarrow> error + (addr list \<times> addr list \<times> positions)" where
  "classify b h c [] acc = Inr acc"
| "classify b h c (p # ps) (fr, en, libs) =
     (if is_pos_valid p then
        (case grid_at b p of
           Some a \<Rightarrow>
             (case deref h a of
                Inl e \<Rightarrow> Inl e
              | Inr g \<Rightarrow>
                  if color g = c then classify b h c ps (set_insert a fr, en, libs)
                  else classify b h c ps (fr, set_insert a en, libs))
         | None \<Rightarrow> classify b h c ps (fr, en, set_insert p libs))
      else classify b h c ps (fr, en, libs))"

text \<open>Line 212: \<^verbatim>\<open>for (const auto& e : adj_friends) *new_group += *e;\<close>\<close>

fun merge_friends :: "heap \<Rightarrow> group \<Rightarrow> addr list \<Rightarrow> error + group" where
  "merge_friends h g [] = Inr g"
| "merge_friends h g (e # es) =
     (case deref h e of
        Inl err \<Rightarrow> Inl err
      | Inr other \<Rightarrow>
          (case group_add_assign g other of
             (g1, Some err) \<Rightarrow> Inl err
           | (g1, None) \<Rightarrow> merge_friends h g1 es))"

text \<open>Line 219: \<^verbatim>\<open>for (const auto& e : adj_friends) activeGroups.erase(e);\<close>\<close>

fun erase_all :: "addr list \<Rightarrow> addr list \<Rightarrow> addr list" where
  "erase_all [] act = act"
| "erase_all (e # es) act = erase_all es (set_erase e act)"

text \<open>Line 223: \<^verbatim>\<open>for (auto p : new_group->stones) grid[p.row][p.col] = new_group;\<close>\<close>

fun put_group :: "addr option \<Rightarrow> positions \<Rightarrow> board \<Rightarrow> error + board" where
  "put_group v [] b = Inr b"
| "put_group v (p # ps) b =
     (case setGroupPtr p v b of Inl e \<Rightarrow> Inl e | Inr b1 \<Rightarrow> put_group v ps b1)"

text \<open>
  \<^verbatim>\<open>removeDeadGroup(g)\<close> (lines 234--237): drop the group from the active set and reset
  the cell of each of its stones.
\<close>

definition removeDeadGroup :: "addr \<Rightarrow> board \<Rightarrow> heap \<Rightarrow> error + board" where
  "removeDeadGroup a b h =
     (case deref h a of
        Inl e \<Rightarrow> Inl e
      | Inr g \<Rightarrow> put_group None (stones g) (b\<lparr>activeGroups := set_erase a (activeGroups b)\<rparr>))"

text \<open>Line 227, \<^verbatim>\<open>enemy->liberties -= pos\<close>: a write through the pointer into the store.\<close>

definition liberties_erase :: "pos \<Rightarrow> addr \<Rightarrow> heap \<Rightarrow> heap" where
  "liberties_erase pos a h = h[a := (h ! a)\<lparr>liberties := set_erase pos (liberties (h ! a))\<rparr>]"

text \<open>Lines 226--229: the loop over \<^verbatim>\<open>adj_enemies\<close>.\<close>

fun update_enemies :: "pos \<Rightarrow> addr list \<Rightarrow> board \<Rightarrow> heap \<Rightarrow> error + (board \<times> heap)" where
  "update_enemies pos [] b h = Inr (b, h)"
| "update_enemies pos (e # es) b h =
     (case deref h e of
        Inl err \<Rightarrow> Inl err
      | Inr g \<Rightarrow>
          (let h1 = liberties_erase pos e h
           in if isDead (h1 ! e) then
                (case removeDeadGroup e b h1 of
                   Inl err \<Rightarrow> Inl err
                 | Inr b1 \<Rightarrow> update_enemies pos es b1 h1)
              else update_enemies pos es b h1))"

text \<open>
  The group the new stone would belong to, as lines 201--212 compute it: the neighbours
  classified, then the singleton group merged with every adjacent friend.
\<close>

definition new_stone_group :: "color \<Rightarrow> pos \<Rightarrow> board \<Rightarrow> heap
    \<Rightarrow> error + (group \<times> addr list \<times> addr list)" where
  "new_stone_group c pos b h =
     (case classify b h c (neighbors pos) ([], [], []) of
        Inl e \<Rightarrow> Inl e
      | Inr (adj_friends, adj_enemies, newLiberties) \<Rightarrow>
          (case merge_friends h \<lparr>color = c, stones = [pos], liberties = newLiberties\<rparr> adj_friends of
             Inl e \<Rightarrow> Inl e
           | Inr new_group \<Rightarrow> Inr (new_group, adj_friends, adj_enemies)))"

text \<open>
  \<^verbatim>\<open>bool place_stone(Color color, Pos pos)\<close>. The first test reads
  \<^verbatim>\<open>!is_pos_valid(pos) || !grid[pos.row][pos.col]\<close>: a \<^verbatim>\<open>shared_ptr\<close> converts to
  \<^verbatim>\<open>true\<close> when it is not null, so the second disjunct holds when the cell is empty.
  \<^verbatim>\<open>||\<close> evaluates its right operand only when the left one is false, which the two
  nested tests write out.
  A failed call returns the board and the store it was given: the group it built was
  local and dies with the call.
\<close>

definition place_stone :: "color \<Rightarrow> pos \<Rightarrow> board \<Rightarrow> heap \<Rightarrow> error + (bool \<times> board \<times> heap)" where
  "place_stone c pos b h =
     (if \<not> is_pos_valid pos then Inr (False, b, h)
      else if grid_at b pos = None then Inr (False, b, h)
      else
        (case new_stone_group c pos b h of
           Inl e \<Rightarrow> Inl e
         | Inr (new_group, adj_friends, adj_enemies) \<Rightarrow>
             if isDead new_group then Inr (False, b, h)
             else
               (let a = length h;
                    h1 = h @ [new_group];
                    b1 = b\<lparr>activeGroups := set_insert a (erase_all adj_friends (activeGroups b))\<rparr>
                in case put_group (Some a) (stones new_group) b1 of
                     Inl e \<Rightarrow> Inl e
                   | Inr b2 \<Rightarrow>
                       (case update_enemies pos adj_enemies b2 h1 of
                          Inl e \<Rightarrow> Inl e
                        | Inr (b3, h3) \<Rightarrow> Inr (True, b3, h3)))))"

subsection \<open>\<^verbatim>\<open>Board::clear\<close> (lines 239--241)\<close>

definition clear :: "board \<Rightarrow> board" where
  "clear b = b\<lparr>grid := map (map (\<lambda>x. None)) (grid b)\<rparr>"

subsection \<open>\<^verbatim>\<open>Board::copy\<close> (lines 256--266)\<close>

text \<open>
  The loop of lines 259--264: each active group is cloned into a fresh cell of the store
  (\<^verbatim>\<open>new _Group{*group}\<close>) and the clone is written into the result's grid at each of its
  stones, through the unchecked \<^verbatim>\<open>res[p]\<close>.
\<close>

fun copy_groups :: "addr list \<Rightarrow> board \<Rightarrow> heap \<Rightarrow> error + (board \<times> heap)" where
  "copy_groups [] res h = Inr (res, h)"
| "copy_groups (g # gs) res h =
     (case deref h g of
        Inl e \<Rightarrow> Inl e
      | Inr grp \<Rightarrow>
          (case put_group (Some (length h)) (stones grp) res of
             Inl e \<Rightarrow> Inl e
           | Inr res1 \<Rightarrow> copy_groups gs res1 (h @ [grp])))"

text \<open>
  \<^verbatim>\<open>Board copy() const\<close>: line 258, \<^verbatim>\<open>res.activeGroups = activeGroups\<close>, copies the set of
  pointers; then the loop fills the grid.
\<close>

definition copy :: "board \<Rightarrow> heap \<Rightarrow> error + (board \<times> heap)" where
  "copy b h = copy_groups (activeGroups b) (empty_board\<lparr>activeGroups := activeGroups b\<rparr>) h"

section \<open>The bot (lines 285--580)\<close>

text \<open>
  From \<^verbatim>\<open>get_move\<close> on, the bodies of the bot's functions still use the names of the
  script they were ported from. They are read with the header's own members:
  \<^verbatim>\<open>e.strings\<close> is \<^verbatim>\<open>activeGroups\<close> (iterated in the order of the set),
  \<^verbatim>\<open>num_liberties()\<close> is \<^verbatim>\<open>numLiberties()\<close>, \<^verbatim>\<open>liberties.first()\<close> is \<^verbatim>\<open>getAny()\<close>,
  \<^verbatim>\<open>board_copy()\<close> is \<^verbatim>\<open>copy()\<close>, \<^verbatim>\<open>add_if_new\<close> is the insertion of \<^verbatim>\<open>Positions\<close>,
  and \<^verbatim>\<open>curr(t)\<close> is the other colour, \<^verbatim>\<open>~t\<close>. The functions \<^verbatim>\<open>is_move_self_capture\<close>
  and \<^verbatim>\<open>is_valid_move\<close> are called and nowhere defined: they are parameters of the
  functions that call them.
\<close>

record bot =
  bot_board :: board
  bot_color :: color
  mcts_visits :: int
  ladder_depth :: int
  anti_ladder_depth :: int
  minimax_depth :: int
  anti_ladder_nearest :: bool
  can_resign :: bool
  minimax_ladder :: bool

type_synonym move_test = "board \<Rightarrow> heap \<Rightarrow> pos \<Rightarrow> color \<Rightarrow> bool"

text \<open>\<^verbatim>\<open>Positions::getAny\<close>, \<^verbatim>\<open>*elements.begin()\<close>: undefined on the empty set.\<close>

definition getAny :: "positions \<Rightarrow> error + pos" where
  "getAny ps = (case ps of [] \<Rightarrow> Inl Empty_set | p # qs \<Rightarrow> Inr p)"

text \<open>The groups a loop over the active set visits, in its order.\<close>

fun strings :: "addr list \<Rightarrow> heap \<Rightarrow> error + group list" where
  "strings [] h = Inr []"
| "strings (a # as) h =
     (case deref h a of
        Inl e \<Rightarrow> Inl e
      | Inr g \<Rightarrow> (case strings as h of Inl e \<Rightarrow> Inl e | Inr gs \<Rightarrow> Inr (g # gs)))"

subsection \<open>\<^verbatim>\<open>is_point_an_eye\<close> (lines 559--579)\<close>

text \<open>\<^verbatim>\<open>board[p]->color\<close>: the pointer in the cell is dereferenced with no test.\<close>

definition group_at :: "board \<Rightarrow> heap \<Rightarrow> pos \<Rightarrow> error + group" where
  "group_at b h p = (case grid_at b p of None \<Rightarrow> Inl Null_deref | Some a \<Rightarrow> deref h a)"

definition color_at :: "board \<Rightarrow> heap \<Rightarrow> pos \<Rightarrow> error + color" where
  "color_at b h p = (case group_at b h p of Inl e \<Rightarrow> Inl e | Inr g \<Rightarrow> Inr (color g))"

text \<open>
  Lines 562--564. \<open>Inr False\<close>: the loop returned \<^verbatim>\<open>false\<close> from the function;
  \<open>Inr True\<close>: it ran to its end.
\<close>

fun eye_neighbors :: "board \<Rightarrow> heap \<Rightarrow> color \<Rightarrow> pos list \<Rightarrow> error + bool" where
  "eye_neighbors b h c [] = Inr True"
| "eye_neighbors b h c (p # ps) =
     (if is_pos_valid p then
        (case color_at b h p of
           Inl e \<Rightarrow> Inl e
         | Inr c1 \<Rightarrow> if c1 \<noteq> c then Inr False else eye_neighbors b h c ps)
      else eye_neighbors b h c ps)"

text \<open>Lines 569--577, on \<^verbatim>\<open>(num_corners, side_corners, is_center_eye)\<close>.\<close>

fun eye_corners :: "board \<Rightarrow> heap \<Rightarrow> color \<Rightarrow> pos list \<Rightarrow> int \<times> int \<times> bool
    \<Rightarrow> error + (int \<times> int \<times> bool)" where
  "eye_corners b h c [] acc = Inr acc"
| "eye_corners b h c (p # ps) (num_corners, side_corners, is_center_eye) =
     (if is_pos_valid p then
        (case color_at b h p of
           Inl e \<Rightarrow> Inl e
         | Inr c1 \<Rightarrow>
             eye_corners b h c ps
               (if c1 = c then num_corners + 1 else num_corners, side_corners, is_center_eye))
      else eye_corners b h c ps (num_corners, side_corners + 1, False))"

definition is_point_an_eye :: "board \<Rightarrow> heap \<Rightarrow> pos \<Rightarrow> color \<Rightarrow> error + bool" where
  "is_point_an_eye b h pos c =
     (case getGroupPtr b pos of
        Inl e \<Rightarrow> Inl e
      | Inr (Some a) \<Rightarrow> Inr False
      | Inr None \<Rightarrow>
          (case eye_neighbors b h c (neighbors pos) of
             Inl e \<Rightarrow> Inl e
           | Inr False \<Rightarrow> Inr False
           | Inr True \<Rightarrow>
               (case eye_corners b h c (corners pos) (0, 0, True) of
                  Inl e \<Rightarrow> Inl e
                | Inr (num_corners, side_corners, is_center_eye) \<Rightarrow>
                    Inr (if is_center_eye then num_corners \<ge> 3
                         else side_corners + num_corners = 4))))"

subsection \<open>\<^verbatim>\<open>isInAtari\<close> (lines 428--431)\<close>

definition in_atari :: "color \<Rightarrow> group \<Rightarrow> bool" where
  "in_atari t g = (color g = t \<and> numLiberties g = 1)"

definition isInAtari :: "board \<Rightarrow> heap \<Rightarrow> color \<Rightarrow> error + bool" where
  "isInAtari e h t =
     (case strings (activeGroups e) h of
        Inl err \<Rightarrow> Inl err
      | Inr gs \<Rightarrow> Inr (list_ex (in_atari t) gs))"

subsection \<open>\<^verbatim>\<open>find_anti_capture_moves\<close> (lines 442--455)\<close>

text \<open>The function returns \<^verbatim>\<open>false\<close> (\<open>No_defense\<close>) or the array of the collected points.\<close>

datatype anti_capture = No_defense | Moves "pos list"

text \<open>
  Lines 449--452, the test made after a point was handled: \<open>None\<close> is \<^verbatim>\<open>return false\<close>,
  \<open>Some r\<close> goes on with the collection \<open>r\<close>.
\<close>

definition resign_check :: "bot \<Rightarrow> board \<Rightarrow> heap \<Rightarrow> color \<Rightarrow> pos \<Rightarrow> positions
    \<Rightarrow> error + positions option" where
  "resign_check bt e h t cur r =
     (if can_resign bt then
        (case copy e h of
           Inl err \<Rightarrow> Inl err
         | Inr (rb, rh) \<Rightarrow>
             (case place_stone t cur rb rh of
                Inl err \<Rightarrow> Inl err
              | Inr (ok, rb1, rh1) \<Rightarrow>
                  (case isInAtari rb1 rh1 t of
                     Inl err \<Rightarrow> Inl err
                   | Inr atari \<Rightarrow> if atari then Inr None else Inr (Some r))))
      else Inr (Some r))"

text \<open>The body of the loop over the groups, lines 444--453, for one group \<open>i\<close>.\<close>

definition anti_capture_step :: "bot \<Rightarrow> move_test \<Rightarrow> board \<Rightarrow> heap \<Rightarrow> color \<Rightarrow> group
    \<Rightarrow> positions \<Rightarrow> error + positions option" where
  "anti_capture_step bt is_move_self_capture e h t i r =
     (if color i = t \<and> numLiberties i = 1 then
        (case getAny (liberties i) of
           Inl err \<Rightarrow> Inl err
         | Inr cur \<Rightarrow>
             if is_move_self_capture (bot_board bt) h cur t then
               (if can_resign bt then Inr None else resign_check bt e h t cur r)
             else resign_check bt e h t cur (set_insert cur r))
      else Inr (Some r))"

fun anti_capture_loop :: "bot \<Rightarrow> move_test \<Rightarrow> board \<Rightarrow> heap \<Rightarrow> color \<Rightarrow> group list
    \<Rightarrow> positions \<Rightarrow> error + anti_capture" where
  "anti_capture_loop bt smc e h t [] r = Inr (Moves r)"
| "anti_capture_loop bt smc e h t (i # gs) r =
     (case anti_capture_step bt smc e h t i r of
        Inl err \<Rightarrow> Inl err
      | Inr None \<Rightarrow> Inr No_defense
      | Inr (Some r1) \<Rightarrow> anti_capture_loop bt smc e h t gs r1)"

definition find_anti_capture_moves :: "bot \<Rightarrow> move_test \<Rightarrow> board \<Rightarrow> heap \<Rightarrow> color
    \<Rightarrow> error + anti_capture" where
  "find_anti_capture_moves bt is_move_self_capture e h t =
     (case strings (activeGroups e) h of
        Inl err \<Rightarrow> Inl err
      | Inr gs \<Rightarrow> anti_capture_loop bt is_move_self_capture e h t gs [])"

subsection \<open>\<^verbatim>\<open>find_ladder_move\<close> (lines 457--479)\<close>

text \<open>
  The function returns \<^verbatim>\<open>null\<close>, a boolean or a point; a caller tests the result for
  truth, and of these only \<^verbatim>\<open>null\<close> and \<^verbatim>\<open>false\<close> are false.
\<close>

datatype ladder_result = Null | LBool bool | LPos pos

fun truthy :: "ladder_result \<Rightarrow> bool" where
  "truthy Null = False"
| "truthy (LBool v) = v"
| "truthy (LPos p) = True"

text \<open>Line 468: the last enemy group with one liberty decides \<^verbatim>\<open>n\<close>.\<close>

fun escape_point :: "color \<Rightarrow> group list \<Rightarrow> pos option \<Rightarrow> error + pos option" where
  "escape_point t [] n = Inr n"
| "escape_point t (g # gs) n =
     (if color g \<noteq> t \<and> numLiberties g = 1 then
        (case getAny (liberties g) of
           Inl err \<Rightarrow> Inl err
         | Inr p \<Rightarrow> escape_point t gs (Some p))
      else escape_point t gs n)"

text \<open>
  Lines 465--470 up to the recursive call, for one liberty \<open>hp\<close>: the chaser plays on a
  copy; when that leaves the chaser in atari the liberty is skipped; when no enemy group
  is left with one liberty the function returns \<^verbatim>\<open>false\<close>; otherwise the enemy answers
  at \<^verbatim>\<open>n\<close> and the search goes on from the resulting board.
\<close>

datatype chase = Chaser_in_atari | No_reply | Reply board heap

definition chase :: "board \<Rightarrow> heap \<Rightarrow> color \<Rightarrow> pos \<Rightarrow> error + chase" where
  "chase e h t hp =
     (case copy e h of
        Inl err \<Rightarrow> Inl err
      | Inr (o1, h1) \<Rightarrow>
          (case place_stone t hp o1 h1 of
             Inl err \<Rightarrow> Inl err
           | Inr (ok, o2, h2) \<Rightarrow>
               (case isInAtari o2 h2 t of
                  Inl err \<Rightarrow> Inl err
                | Inr atari \<Rightarrow>
                    if atari then Inr Chaser_in_atari
                    else
                      (case strings (activeGroups o2) h2 of
                         Inl err \<Rightarrow> Inl err
                       | Inr gs \<Rightarrow>
                           (case escape_point t gs None of
                              Inl err \<Rightarrow> Inl err
                            | Inr None \<Rightarrow> Inr No_reply
                            | Inr (Some n) \<Rightarrow>
                                (case place_stone (color_not t) n o2 h2 of
                                   Inl err \<Rightarrow> Inl err
                                 | Inr (ok2, o3, h3) \<Rightarrow> Inr (Reply o3 h3)))))))"

text \<open>
  The two nested loops, lines 463--477. \<open>Next\<close>: the loop ended with \<^verbatim>\<open>l\<close> still
  \<^verbatim>\<open>null\<close>; \<open>Found h\<close>: \<^verbatim>\<open>l = h; break\<close>; \<open>Return_false\<close>: line 469 left the function.
  \<open>rec\<close> is the recursive call of line 470 on the board the chase produced; it answers
  \<open>None\<close> when the recursion was cut. The board \<open>e\<close> and its groups are not written
  to inside the loops (every write goes to the copy, whose grid holds fresh cells only),
  so every round starts from the store \<open>h\<close>.
\<close>

datatype ladder_loop = Next | Found pos | Return_false

fun ladder_liberties :: "(board \<Rightarrow> heap \<Rightarrow> (error + ladder_result) option) \<Rightarrow> move_test
    \<Rightarrow> board \<Rightarrow> heap \<Rightarrow> color \<Rightarrow> positions \<Rightarrow> (error + ladder_loop) option" where
  "ladder_liberties rec is_valid_move e h t [] = Some (Inr Next)"
| "ladder_liberties rec is_valid_move e h t (hp # hs) =
     (if is_valid_move e h hp t then
        (case chase e h t hp of
           Inl err \<Rightarrow> Some (Inl err)
         | Inr Chaser_in_atari \<Rightarrow> ladder_liberties rec is_valid_move e h t hs
         | Inr No_reply \<Rightarrow> Some (Inr Return_false)
         | Inr (Reply o3 h3) \<Rightarrow>
             (case rec o3 h3 of
                None \<Rightarrow> None
              | Some (Inl err) \<Rightarrow> Some (Inl err)
              | Some (Inr res) \<Rightarrow>
                  if truthy res then Some (Inr (Found hp))
                  else ladder_liberties rec is_valid_move e h t hs))
      else ladder_liberties rec is_valid_move e h t hs)"

fun ladder_groups :: "(board \<Rightarrow> heap \<Rightarrow> (error + ladder_result) option) \<Rightarrow> move_test
    \<Rightarrow> board \<Rightarrow> heap \<Rightarrow> color \<Rightarrow> group list \<Rightarrow> (error + ladder_loop) option" where
  "ladder_groups rec is_valid_move e h t [] = Some (Inr Next)"
| "ladder_groups rec is_valid_move e h t (a # gs) =
     (if color a \<noteq> t \<and> numLiberties a = 2 then
        (case ladder_liberties rec is_valid_move e h t (liberties a) of
           None \<Rightarrow> None
         | Some (Inl err) \<Rightarrow> Some (Inl err)
         | Some (Inr Next) \<Rightarrow> ladder_groups rec is_valid_move e h t gs
         | Some (Inr (Found l)) \<Rightarrow> Some (Inr (Found l))
         | Some (Inr Return_false) \<Rightarrow> Some (Inr Return_false))
      else ladder_groups rec is_valid_move e h t gs)"

text \<open>Lines 461--478, past the depth test; \<open>rec\<close> stands for the call at depth \<open>r + 1\<close>.\<close>

definition ladder_body :: "(board \<Rightarrow> heap \<Rightarrow> (error + ladder_result) option) \<Rightarrow> move_test
    \<Rightarrow> board \<Rightarrow> heap \<Rightarrow> color \<Rightarrow> int \<Rightarrow> (error + ladder_result) option" where
  "ladder_body rec is_valid_move e h t r =
     (case strings (activeGroups e) h of
        Inl err \<Rightarrow> Some (Inl err)
      | Inr gs \<Rightarrow>
          if list_ex (\<lambda>g. color g \<noteq> t \<and> numLiberties g = 1) gs then Some (Inr (LBool True))
          else
            (case ladder_groups rec is_valid_move e h t gs of
               None \<Rightarrow> None
             | Some (Inl err) \<Rightarrow> Some (Inl err)
             | Some (Inr Return_false) \<Rightarrow> Some (Inr (LBool False))
             | Some (Inr Next) \<Rightarrow> Some (Inr Null)
             | Some (Inr (Found l)) \<Rightarrow> Some (Inr (if 1 \<noteq> r then LBool True else LPos l))))"

text \<open>
  \<^verbatim>\<open>find_ladder_move(e, t, r = 1, i = false)\<close>. The first argument of the model is not
  in the source: it is the number of nested activations the call may use, itself
  included, and the answer is \<open>None\<close> when that number does not suffice. It makes the
  depth of the recursion something a theorem can bound.
\<close>

primrec find_ladder_move :: "nat \<Rightarrow> bot \<Rightarrow> move_test \<Rightarrow> board \<Rightarrow> heap \<Rightarrow> color \<Rightarrow> int \<Rightarrow> bool
    \<Rightarrow> (error + ladder_result) option" where
  "find_ladder_move 0 bt is_valid_move e h t r i = None"
| "find_ladder_move (Suc k) bt is_valid_move e h t r i =
     (if i then
        (if r > anti_ladder_depth bt then Some (Inr Null)
         else ladder_body (\<lambda>o3 h3. find_ladder_move k bt is_valid_move o3 h3 t (r + 1) i)
                is_valid_move e h t r)
      else if r > ladder_depth bt then Some (Inr Null)
      else ladder_body (\<lambda>o3 h3. find_ladder_move k bt is_valid_move o3 h3 t (r + 1) i)
             is_valid_move e h t r)"

definition depth_bound :: "bot \<Rightarrow> bool \<Rightarrow> int" where
  "depth_bound bt i = (if i then anti_ladder_depth bt else ladder_depth bt)"

section \<open>Sample positions\<close>

fun with_stones :: "(pos \<times> addr) list \<Rightarrow> board \<Rightarrow> board" where
  "with_stones [] b = b"
| "with_stones ((p, a) # xs) b = with_stones xs (grid_set p (Some a) b)"

text \<open>One black stone in the middle of the board.\<close>

definition one_stone_heap :: heap where
  "one_stone_heap =
     [\<lparr>color = BLACK, stones = [(4, 4)], liberties = [(3, 4), (4, 3), (4, 5), (5, 4)]\<rparr>]"

definition one_stone_board :: board where
  "one_stone_board = (with_stones [((4, 4), 0)] empty_board)\<lparr>activeGroups := [0]\<rparr>"

text \<open>Two black stones side by side, one group.\<close>

definition two_stone_heap :: heap where
  "two_stone_heap =
     [\<lparr>color = BLACK, stones = [(4, 4), (4, 5)],
       liberties = [(3, 4), (3, 5), (4, 3), (4, 6), (5, 4), (5, 5)]\<rparr>]"

definition two_stone_board :: board where
  "two_stone_board = (with_stones [((4, 4), 0), ((4, 5), 0)] empty_board)\<lparr>activeGroups := [0]\<rparr>"

text \<open>
  The corner \<open>(0, 0)\<close> empty, white stones at \<open>(0, 1)\<close> and \<open>(1, 0)\<close>, each with
  \<open>(0, 0)\<close> as its last liberty, and black stones at \<open>(0, 2)\<close>, \<open>(1, 1)\<close> and
  \<open>(2, 0)\<close> around them: black at \<open>(0, 0)\<close> would take both white stones.
\<close>

definition capture_heap :: heap where
  "capture_heap =
     [\<lparr>color = WHITE, stones = [(0, 1)], liberties = [(0, 0)]\<rparr>,
      \<lparr>color = WHITE, stones = [(1, 0)], liberties = [(0, 0)]\<rparr>,
      \<lparr>color = BLACK, stones = [(0, 2)], liberties = [(0, 3), (1, 2)]\<rparr>,
      \<lparr>color = BLACK, stones = [(1, 1)], liberties = [(1, 2), (2, 1)]\<rparr>,
      \<lparr>color = BLACK, stones = [(2, 0)], liberties = [(2, 1), (3, 0)]\<rparr>]"

definition capture_board :: board where
  "capture_board =
     (with_stones [((0, 1), 0), ((1, 0), 1), ((0, 2), 2), ((1, 1), 3), ((2, 0), 4)] empty_board)
       \<lparr>activeGroups := [0, 1, 2, 3, 4]\<rparr>"



text \<open>
  A black stone at \<open>(0, 1)\<close> whose last liberty is the corner \<open>(0, 0)\<close>, with white
  stones at \<open>(0, 2)\<close>, \<open>(1, 1)\<close> and \<open>(1, 0)\<close>: black at \<open>(0, 0)\<close> would fill the last
  liberty of its own group and take nothing.
\<close>

definition atari_heap :: heap where
  "atari_heap =
     [\<lparr>color = BLACK, stones = [(0, 1)], liberties = [(0, 0)]\<rparr>,
      \<lparr>color = WHITE, stones = [(0, 2)], liberties = [(0, 3), (1, 2)]\<rparr>,
      \<lparr>color = WHITE, stones = [(1, 0), (1, 1)], liberties = [(0, 0), (1, 2), (2, 0), (2, 1)]\<rparr>]"

definition atari_board :: board where
  "atari_board =
     (with_stones [((0, 1), 0), ((0, 2), 1), ((1, 0), 2), ((1, 1), 2)] empty_board)
       \<lparr>activeGroups := [0, 1, 2]\<rparr>"

definition sample_bot :: bot where
  "sample_bot =
     \<lparr>bot_board = atari_board, bot_color = BLACK, mcts_visits = 50, ladder_depth = 4,
      anti_ladder_depth = 4, minimax_depth = 1, anti_ladder_nearest = False,
      can_resign = False, minimax_ladder = False\<rparr>"

section \<open>The consistency of a board\<close>






section \<open>The merged group and the boards the operations build\<close>




section \<open>Properties\<close>

subsection \<open>The first test of \<^verbatim>\<open>place_stone\<close>\<close>


lemma place_stone_empty_cell: "grid_at b pos = None \<Longrightarrow> place_stone c pos b h = Inr (False, b, h)"
  by (simp add: place_stone_def)


lemma place_stone_False_unchanged:
  "place_stone c pos b h = Inr (False, b1, h1) \<Longrightarrow> b1 = b \<and> h1 = h"
  by (auto simp: place_stone_def Let_def split: if_splits sum.splits prod.splits)

text \<open>
  C1. The claim: \<^verbatim>\<open>place_stone\<close> returns false, changing nothing, when the point is off
  the grid or occupied, and goes on to place the stone exactly when the point is on the
  grid and empty. The code at line 198 tests \<^verbatim>\<open>!grid[pos.row][pos.col]\<close>, which is true of
  an empty cell. Evaluated: black at the empty centre point of the empty board is
  refused, and black at the centre point that already holds a stone is accepted, a
  second group being put on that point.
\<close>

theorem place_stone_first_test_inverted:
  "place_stone BLACK (4, 4) empty_board [] = Inr (False, empty_board, [])
   \<and> place_stone BLACK (4, 4) one_stone_board one_stone_heap =
       Inr (True,
            (with_stones [((4, 4), 1)] empty_board)\<lparr>activeGroups := [0, 1]\<rparr>,
            one_stone_heap @
              [\<lparr>color = BLACK, stones = [(4, 4)], liberties = [(3, 4), (4, 3), (4, 5), (5, 4)]\<rparr>])"
  by code_simp

subsection \<open>Merging\<close>


text \<open>
  C2. The claim: an illegal placement is reported by the result false and never by an
  exception, in particular when the new stone has an adjacent group of its own colour to
  merge with. Evaluated: black on the occupied point \<open>(4, 4)\<close>, whose neighbour
  \<open>(4, 5)\<close> holds a black group, ends in the \<^verbatim>\<open>std::invalid_argument\<close> that
  \<^verbatim>\<open>operator+=\<close> throws on every path (line 171).
\<close>

theorem place_stone_throws_on_adjacent_friend:
  "place_stone BLACK (4, 4) two_stone_board two_stone_heap = Inl Invalid_argument"
  by code_simp

subsection \<open>Copying a board\<close>

lemma put_group_activeGroups: "put_group v ps b = Inr b1 \<Longrightarrow> activeGroups b1 = activeGroups b"
proof (induction ps arbitrary: b)
  case Nil
  then show ?case by simp
next
  case (Cons p ps)
  then show ?case
    by (auto simp: setGroupPtr_def grid_set_def split: if_splits sum.splits)
qed

lemma copy_groups_activeGroups:
  "copy_groups gs res h = Inr (cb, ch) \<Longrightarrow> activeGroups cb = activeGroups res"
proof (induction gs arbitrary: res h)
  case Nil
  then show ?case by simp
next
  case (Cons g gs)
  then show ?case
    by (auto split: sum.splits dest: put_group_activeGroups)
qed

text \<open>The active set of a copy holds the very references of the original.\<close>

lemma copy_activeGroups: "copy b h = Inr (cb, ch) \<Longrightarrow> activeGroups cb = activeGroups b"
  by (auto simp: copy_def dest: copy_groups_activeGroups)

text \<open>
  C3. The claim: every group reachable from a copy, through its grid and through its
  active set, is a fresh clone, so that a write to a group of the copy never shows in the
  original. Evaluated on the board with one stone, whose group is stored at address 0:
  the grid of the copy refers to the clone at address 1, the active set of the copy is
  still \<open>[0]\<close>, and erasing a liberty of the group that the copy's active set
  refers to changes the group the original board has at \<open>(4, 4)\<close>.
\<close>

theorem copy_shares_active_groups:
  "copy one_stone_board one_stone_heap =
     Inr ((with_stones [((4, 4), 1)] empty_board)\<lparr>activeGroups := [0]\<rparr>,
          one_stone_heap @ one_stone_heap)
   \<and> grid_at one_stone_board (4, 4) = Some 0
   \<and> group_at one_stone_board (one_stone_heap @ one_stone_heap) (4, 4) =
       Inr \<lparr>color = BLACK, stones = [(4, 4)], liberties = [(3, 4), (4, 3), (4, 5), (5, 4)]\<rparr>
   \<and> group_at one_stone_board (liberties_erase (4, 5) 0 (one_stone_heap @ one_stone_heap)) (4, 4) =
       Inr \<lparr>color = BLACK, stones = [(4, 4)], liberties = [(3, 4), (4, 3), (5, 4)]\<rparr>"
  by code_simp

subsection \<open>Eyes\<close>

text \<open>
  C5. The claim: on an empty point \<^verbatim>\<open>is_point_an_eye\<close> always returns, never
  dereferencing a null group pointer, and returns false when an on-grid neighbour is
  empty or holds an enemy stone. Evaluated: on the empty board the first neighbour of the
  centre point is empty and line 563 dereferences its null pointer; and for white at
  \<open>(4, 3)\<close> beside the black stone at \<open>(4, 4)\<close> the empty neighbour \<open>(4, 2)\<close> is
  dereferenced before the enemy stone is looked at.
\<close>

theorem is_point_an_eye_null_deref:
  "is_point_an_eye empty_board [] (4, 4) BLACK = Inl Null_deref
   \<and> is_point_an_eye one_stone_board one_stone_heap (4, 3) WHITE = Inl Null_deref"
  by code_simp

subsection \<open>Consistency after a placement\<close>








subsection \<open>The suicide test\<close>

text \<open>
  Since \<^verbatim>\<open>operator+=\<close> always throws, lines 211--212 come to an end only when the stone
  has no adjacent friend.
\<close>

lemma new_stone_group_friendless: "new_stone_group c pos b h = Inr (g, fr, en) \<Longrightarrow> fr = []"
proof -
  have "merge_friends h g0 fs = Inr g \<Longrightarrow> fs = []" for g0 fs
    by (cases fs) (auto simp: group_add_assign_def Let_def split: sum.splits)
  then show "new_stone_group c pos b h = Inr (g, fr, en) \<Longrightarrow> fr = []"
    by (auto simp: new_stone_group_def split: sum.splits prod.splits)
qed


lemma place_stone_no_throw_off_grid:
  "\<not> is_pos_valid pos \<Longrightarrow> place_stone c pos b h \<noteq> Inl Invalid_argument"
  by (simp add: place_stone_def)



subsection \<open>Capturing moves\<close>

text \<open>
  Past the first test, the test of line 215 looks at the new stone's group alone: the
  list of adjacent enemies, and whether the stone would take one of them, does not
  enter, since the loop over the enemies (lines 226--229) comes after it.
\<close>

lemma suicide_test_ignores_enemies:
  "is_pos_valid pos \<Longrightarrow> grid_at b pos = Some a \<Longrightarrow>
   new_stone_group c pos b h = Inr (g, fr, en) \<Longrightarrow> isDead g \<Longrightarrow>
   place_stone c pos b h = Inr (False, b, h)"
  by (simp add: place_stone_def)

text \<open>A call succeeds only if the new stone's group has a liberty before any capture.\<close>

lemma place_stone_success_needs_liberty:
  "place_stone c pos b h = Inr (True, b1, h1) \<Longrightarrow>
   \<exists>g fr en. new_stone_group c pos b h = Inr (g, fr, en) \<and> \<not> isDead g"
  by (auto simp: place_stone_def Let_def split: if_splits sum.splits prod.splits)

text \<open>
  C4. The claim: a move that takes an adjacent enemy group succeeds, also when the group
  of the new stone has no liberty before the capture is resolved. Evaluated in the corner
  position: black at the empty point \<open>(0, 0)\<close> has the two white stones as its only
  neighbours, each of them is dead once \<open>(0, 0)\<close> is erased from its liberties, the
  group of the new stone has no liberty, and the call returns false with nothing
  changed. The first test refuses the move because the point is empty; the test of line
  215, placed before the loop that removes captured groups, refuses such a move as well
  (\<open>suicide_test_ignores_enemies\<close>, \<open>place_stone_success_needs_liberty\<close>).
\<close>

theorem capturing_move_rejected:
  "grid_at capture_board (0, 0) = None
   \<and> new_stone_group BLACK (0, 0) capture_board capture_heap =
       Inr (\<lparr>color = BLACK, stones = [(0, 0)], liberties = []\<rparr>, [], [0, 1])
   \<and> isDead \<lparr>color = BLACK, stones = [(0, 0)], liberties = []\<rparr>
   \<and> isDead (liberties_erase (0, 0) 0 capture_heap ! 0)
   \<and> isDead (liberties_erase (0, 0) 1 capture_heap ! 1)
   \<and> place_stone BLACK (0, 0) capture_board capture_heap =
       Inr (False, capture_board, capture_heap)"
  by code_simp

subsection \<open>Defending groups in atari\<close>

lemma set_set_insert: "set (set_insert x xs) = insert x (set xs)"
  by (induction xs) auto

lemma getAny_single: "numLiberties g = 1 \<Longrightarrow> \<exists>p. getAny (liberties g) = Inr p"
  by (cases "liberties g") (auto simp: numLiberties_def getAny_def)

lemma resign_check_no_resign: "\<not> can_resign bt \<Longrightarrow> resign_check bt e h t cur r = Inr (Some r)"
  by (simp add: resign_check_def)

text \<open>What one round of the loop does to the collection when the bot may not resign.\<close>

lemma anti_capture_step_no_resign:
  assumes "\<not> can_resign bt"
  shows "\<exists>r1. anti_capture_step bt smc e h t i r = Inr (Some r1)
     \<and> set r1 = set r \<union>
         {p. in_atari t i \<and> getAny (liberties i) = Inr p \<and> \<not> smc (bot_board bt) h p t}"
proof (cases "in_atari t i")
  case False
  then show ?thesis
    by (auto simp: anti_capture_step_def in_atari_def)
next
  case True
  then have one: "numLiberties i = 1" and col: "color i = t"
    by (auto simp: in_atari_def)
  from getAny_single [OF one] obtain p where p: "getAny (liberties i) = Inr p"
    by blast
  show ?thesis
  proof (cases "smc (bot_board bt) h p t")
    case True
    with assms one col p \<open>in_atari t i\<close> show ?thesis
      by (auto simp: anti_capture_step_def resign_check_no_resign)
  next
    case False
    with assms one col p \<open>in_atari t i\<close> show ?thesis
      by (auto simp: anti_capture_step_def resign_check_no_resign set_set_insert)
  qed
qed

lemma anti_capture_loop_no_resign:
  assumes "\<not> can_resign bt"
  shows "\<exists>r1. anti_capture_loop bt smc e h t gs r = Inr (Moves r1)
     \<and> set r1 = set r \<union>
         {p. \<exists>g \<in> set gs. in_atari t g \<and> getAny (liberties g) = Inr p
               \<and> \<not> smc (bot_board bt) h p t}"
proof (induction gs arbitrary: r)
  case Nil
  then show ?case by simp
next
  case (Cons i gs)
  from anti_capture_step_no_resign [OF assms, of smc e h t i r]
  obtain r1 where s: "anti_capture_step bt smc e h t i r = Inr (Some r1)"
    and r1: "set r1 = set r \<union>
         {p. in_atari t i \<and> getAny (liberties i) = Inr p \<and> \<not> smc (bot_board bt) h p t}"
    by blast
  from Cons.IH [of r1] obtain r2 where l: "anti_capture_loop bt smc e h t gs r1 = Inr (Moves r2)"
    and r2: "set r2 = set r1 \<union>
         {p. \<exists>g \<in> set gs. in_atari t g \<and> getAny (liberties g) = Inr p
               \<and> \<not> smc (bot_board bt) h p t}"
    by blast
  have "anti_capture_loop bt smc e h t (i # gs) r = Inr (Moves r2)"
    using s l by simp
  moreover have "set r2 = set r \<union>
         {p. \<exists>g \<in> set (i # gs). in_atari t g \<and> getAny (liberties g) = Inr p
               \<and> \<not> smc (bot_board bt) h p t}"
    using r1 r2 by auto
  ultimately show ?case by blast
qed

text \<open>
  C8, as the claim has it: when the bot may not resign, the last liberty of every own
  group in atari is collected, also when playing there is a self-capture. In the sample
  position the black group at \<open>(0, 1)\<close> is in atari, its last liberty is \<open>(0, 0)\<close>,
  the bot may not resign, and with the move black at \<open>(0, 0)\<close> judged a self-capture
  nothing is collected.
\<close>

theorem self_capture_point_not_collected:
  "can_resign sample_bot = False
   \<and> strings (activeGroups atari_board) atari_heap = Inr atari_heap
   \<and> in_atari BLACK (atari_heap ! 0)
   \<and> getAny (liberties (atari_heap ! 0)) = Inr (0, 0)
   \<and> find_anti_capture_moves sample_bot (\<lambda>b h p c. p = (0, 0) \<and> c = BLACK)
        atari_board atari_heap BLACK = Inr (Moves [])"
  by code_simp

text \<open>
  C8, amended: when the bot may not resign, \<^verbatim>\<open>find_anti_capture_moves\<close> returns the
  points that are the last liberty of an own group in atari and for which
  \<^verbatim>\<open>is_move_self_capture\<close> is false; a last liberty that is a self-capture is left out.
\<close>

theorem anti_capture_collects_safe_points:
  assumes "\<not> can_resign bt" and "strings (activeGroups e) h = Inr gs"
  shows "\<exists>r. find_anti_capture_moves bt is_move_self_capture e h t = Inr (Moves r)
     \<and> set r = {p. \<exists>g \<in> set gs. in_atari t g \<and> getAny (liberties g) = Inr p
                     \<and> \<not> is_move_self_capture (bot_board bt) h p t}"
  using anti_capture_loop_no_resign [OF assms(1), of is_move_self_capture e h t gs "[]"] assms(2)
  by (simp add: find_anti_capture_moves_def)

theorem anti_capture_collects_safe_points_witness:
  "\<not> can_resign sample_bot
   \<and> strings (activeGroups atari_board) atari_heap = Inr atari_heap
   \<and> (\<exists>r. find_anti_capture_moves sample_bot (\<lambda>b h p c. False) atari_board atari_heap BLACK =
            Inr (Moves r)
          \<and> set r = {p. \<exists>g \<in> set atari_heap. in_atari BLACK g \<and> getAny (liberties g) = Inr p
                          \<and> \<not> False})"
proof -
  have c: "\<not> can_resign sample_bot"
    by code_simp
  have s: "strings (activeGroups atari_board) atari_heap = Inr atari_heap"
    by code_simp
  from anti_capture_collects_safe_points [OF c s, of "\<lambda>b h p c. False" BLACK] c s
  show ?thesis
    by blast
qed

subsection \<open>The depth of the ladder search\<close>

lemma ladder_liberties_returns:
  assumes "\<And>o3 h3. rec o3 h3 \<noteq> None"
  shows "ladder_liberties rec ivm e h t hs \<noteq> None"
proof (induction hs)
  case Nil
  then show ?case by simp
next
  case (Cons hp hs)
  show ?case
  proof (cases "ivm e h hp t")
    case False
    with Cons show ?thesis by simp
  next
    case True
    show ?thesis
    proof (cases "chase e h t hp")
      case (Inl err)
      with True show ?thesis by simp
    next
      case (Inr ch)
      show ?thesis
      proof (cases ch)
        case Chaser_in_atari
        with True Inr Cons show ?thesis by simp
      next
        case No_reply
        with True Inr show ?thesis by simp
      next
        case (Reply o3 h3)
        from assms [of o3 h3] obtain y where y: "rec o3 h3 = Some y"
          by blast
        with True Inr Reply Cons show ?thesis
          by (cases y) auto
      qed
    qed
  qed
qed

lemma ladder_groups_returns:
  assumes "\<And>o3 h3. rec o3 h3 \<noteq> None"
  shows "ladder_groups rec ivm e h t gs \<noteq> None"
proof (induction gs)
  case Nil
  then show ?case by simp
next
  case (Cons a gs)
  from ladder_liberties_returns [of rec ivm e h t "liberties a", OF assms]
  obtain y where y: "ladder_liberties rec ivm e h t (liberties a) = Some y"
    by blast
  with Cons show ?case
    by (auto split: sum.splits ladder_loop.splits)
qed

lemma ladder_body_returns:
  assumes "\<And>o3 h3. rec o3 h3 \<noteq> None"
  shows "ladder_body rec ivm e h t r \<noteq> None"
proof (cases "strings (activeGroups e) h")
  case (Inl err)
  then show ?thesis
    by (simp add: ladder_body_def)
next
  case (Inr gs)
  from ladder_groups_returns [of rec ivm e h t gs, OF assms]
  obtain y where y: "ladder_groups rec ivm e h t gs = Some y"
    by blast
  with Inr show ?thesis
    by (auto simp: ladder_body_def split: sum.splits ladder_loop.splits)
qed

lemma find_ladder_move_past_bound:
  "depth_bound bt i < r \<Longrightarrow> find_ladder_move (Suc k) bt ivm e h t r i = Some (Inr Null)"
  by (cases i) (simp_all add: depth_bound_def)

lemma find_ladder_move_within_bound:
  "\<not> depth_bound bt i < r \<Longrightarrow>
   find_ladder_move (Suc k) bt ivm e h t r i =
     ladder_body (\<lambda>o3 h3. find_ladder_move k bt ivm o3 h3 t (r + 1) i) ivm e h t r"
  by (cases i) (simp_all add: depth_bound_def)

lemma find_ladder_move_enough:
  "nat (depth_bound bt i + 1 - r) \<le> k \<Longrightarrow> find_ladder_move (Suc k) bt ivm e h t r i \<noteq> None"
proof (induction k arbitrary: e h r)
  case 0
  then have "depth_bound bt i < r" by linarith
  then have "find_ladder_move (Suc 0) bt ivm e h t r i = Some (Inr Null)"
    by (rule find_ladder_move_past_bound)
  then show ?case
    by (simp only: option.distinct not_False_eq_True)
next
  case (Suc k)
  show ?case
  proof (cases "depth_bound bt i < r")
    case True
    then have "find_ladder_move (Suc (Suc k)) bt ivm e h t r i = Some (Inr Null)"
      by (rule find_ladder_move_past_bound)
    then show ?thesis
      by (simp only: option.distinct not_False_eq_True)
  next
    case False
    with Suc.prems have "nat (depth_bound bt i + 1 - (r + 1)) \<le> k"
      by simp
    then have "find_ladder_move (Suc k) bt ivm o3 h3 t (r + 1) i \<noteq> None" for o3 h3
      by (rule Suc.IH)
    then have "ladder_body (\<lambda>o3 h3. find_ladder_move (Suc k) bt ivm o3 h3 t (r + 1) i)
        ivm e h t r \<noteq> None"
      by (rule ladder_body_returns)
    moreover from False have "find_ladder_move (Suc (Suc k)) bt ivm e h t r i =
        ladder_body (\<lambda>o3 h3. find_ladder_move (Suc k) bt ivm o3 h3 t (r + 1) i) ivm e h t r"
      by (rule find_ladder_move_within_bound)
    ultimately show ?thesis
      by metis
  qed
qed

text \<open>
  C9. \<^verbatim>\<open>find_ladder_move\<close> returns, whatever the board, the colour, the profile and the
  depth \<open>r\<close> it is called with: counting the call itself, \<open>depth_bound + 2 - r\<close>
  nested activations (one, when that is less) always suffice, so from \<open>r = 1\<close> the
  depths of the activations that search run from 1 to the configured depth, followed by
  at most one that only returns. A call whose depth is past the bound returns
  \<^verbatim>\<open>null\<close> with no recursive call at all.
\<close>

theorem find_ladder_move_depth_bounded:
  "(\<exists>res. find_ladder_move (Suc (nat (depth_bound bt i + 1 - r))) bt is_valid_move e h t r i =
           Some res)
   \<and> find_ladder_move (Suc 0) bt is_valid_move e h t (depth_bound bt i + 1 + int n) i =
       Some (Inr Null)"
proof
  have "find_ladder_move (Suc (nat (depth_bound bt i + 1 - r))) bt is_valid_move e h t r i \<noteq> None"
    by (rule find_ladder_move_enough) simp
  then show "\<exists>res. find_ladder_move (Suc (nat (depth_bound bt i + 1 - r))) bt is_valid_move
      e h t r i = Some res"
    by blast
next
  have "depth_bound bt i < depth_bound bt i + 1 + int n"
    by simp
  then show "find_ladder_move (Suc 0) bt is_valid_move e h t (depth_bound bt i + 1 + int n) i =
      Some (Inr Null)"
    by (rule find_ladder_move_past_bound)
qed

subsection \<open>Clearing\<close>

text \<open>
  C10. \<^verbatim>\<open>Board::clear\<close> resets every cell of the grid to the null reference and does not
  touch the set of active groups: the grid keeps its shape, each of its cells is empty,
  and \<^verbatim>\<open>activeGroups\<close> holds the same references as before.
\<close>

theorem clear_keeps_activeGroups:
  "activeGroups (clear b) = activeGroups b
   \<and> grid (clear b) = map (\<lambda>r. replicate (length r) None) (grid b)"
  by (simp add: clear_def map_replicate_const)

end
